theory Spec2Isabelle
  imports Complex_Main "HOL-Library.Sublist"
begin

section \<open>Strings and characters\<close>

text \<open>
  A JavaScript string is a sequence of UTF-16 code units.  The embedding uses \<open>char list\<close>
  and reads every \<open>char\<close> as the code unit of that value, so it covers texts whose code
  units lie below 256 (ASCII and the Latin-1 supplement).  Within that range the classes
  below are the ones of the ECMAScript regular expression grammar: \<open>\s\<close> is TAB, LF, VT,
  FF, CR, SP and NBSP; \<open>\w\<close> is \<open>[A-Za-z0-9_]\<close>; \<open>.\<close> excludes LF and CR.
\<close>

definition isSpace :: "char \<Rightarrow> bool" where
  "isSpace c = (c \<in> set [CHR 0x09, CHR 0x0A, CHR 0x0B, CHR 0x0C, CHR 0x0D, CHR '' '', CHR 0xA0])"

definition isUpperAZ :: "char \<Rightarrow> bool" where
  "isUpperAZ c = (c \<in> set ''ABCDEFGHIJKLMNOPQRSTUVWXYZ'')"

definition isLowerAZ :: "char \<Rightarrow> bool" where
  "isLowerAZ c = (c \<in> set ''abcdefghijklmnopqrstuvwxyz'')"

definition isLetterAZ :: "char \<Rightarrow> bool" where
  "isLetterAZ c = (isUpperAZ c \<or> isLowerAZ c)"

definition isDigit :: "char \<Rightarrow> bool" where
  "isDigit c = (c \<in> set ''0123456789'')"

definition isWordChar :: "char \<Rightarrow> bool" where
  "isWordChar c = (isLetterAZ c \<or> isDigit c \<or> c = CHR ''_'')"

definition isLineTerminator :: "char \<Rightarrow> bool" where
  "isLineTerminator c = (c = CHR 0x0A \<or> c = CHR 0x0D)"

definition isDot :: "char \<Rightarrow> bool" where
  "isDot c = (\<not> isLineTerminator c)"

text \<open>\<open>[.!?]\<close>, the sentence terminators, and \<open>[,.;:!?]\<close>, the punctuation of the spacing rules.\<close>

definition isTerminator :: "char \<Rightarrow> bool" where
  "isTerminator c = (c \<in> set ''.!?'')"

definition isPunct :: "char \<Rightarrow> bool" where
  "isPunct c = (c \<in> set '',.;:!?'')"

text \<open>
  Case mapping, on the bits of the code unit (\<open>Char\<close> lists them from the lowest).
  \<open>upperChar\<close> maps \<open>a..z\<close> to \<open>A..Z\<close> by clearing bit 5; the program applies
  \<open>toUpperCase\<close> only to text matched by ASCII letter patterns and to dictionary words.
  \<open>lowerChar\<close> is \<open>toLowerCase\<close> on one code unit below 256: \<open>A..Z\<close> and the Latin-1
  capitals \<open>0xC0..0xDE\<close> (without the multiplication sign \<open>0xD7\<close>) move up by 32, which
  sets bit 5.
\<close>

definition upperChar :: "char \<Rightarrow> char" where
  "upperChar c =
     (if isLowerAZ c
      then (case c of Char b0 b1 b2 b3 b4 b5 b6 b7 \<Rightarrow> Char b0 b1 b2 b3 b4 False b6 b7)
      else c)"

definition isLatin1Upper :: "char \<Rightarrow> bool" where
  "isLatin1Upper c =
     (case c of Char b0 b1 b2 b3 b4 b5 b6 b7 \<Rightarrow>
        b7 \<and> b6 \<and> \<not> b5 \<and> \<not> (b0 \<and> b1 \<and> b2 \<and> \<not> b3 \<and> b4))"

definition lowerChar :: "char \<Rightarrow> char" where
  "lowerChar c =
     (if isUpperAZ c \<or> isLatin1Upper c
      then (case c of Char b0 b1 b2 b3 b4 b5 b6 b7 \<Rightarrow> Char b0 b1 b2 b3 b4 True b6 b7)
      else c)"

definition toUpperCase :: "string \<Rightarrow> string" where
  "toUpperCase s = map upperChar s"

definition toLowerCase :: "string \<Rightarrow> string" where
  "toLowerCase s = map lowerChar s"

text \<open>\<open>String.prototype.trim\<close>: white space and line terminators go from both ends.\<close>

definition trimStart :: "string \<Rightarrow> string" where
  "trimStart s = dropWhile isSpace s"

definition trim :: "string \<Rightarrow> string" where
  "trim s = rev (dropWhile isSpace (rev (dropWhile isSpace s)))"

text \<open>\<open>String.prototype.includes\<close> and \<open>Array.prototype.join\<close>.\<close>

fun startsWith :: "string \<Rightarrow> string \<Rightarrow> bool" where
  "startsWith s [] = True"
| "startsWith [] (c # p) = False"
| "startsWith (x # s) (c # p) = (x = c \<and> startsWith s p)"

fun includes_str :: "string \<Rightarrow> string \<Rightarrow> bool" where
  "includes_str [] sub = (sub = [])"
| "includes_str (x # s) sub = (startsWith (x # s) sub \<or> includes_str s sub)"

fun join :: "string \<Rightarrow> string list \<Rightarrow> string" where
  "join sep [] = []"
| "join sep [x] = x"
| "join sep (x # y # ys) = x @ sep @ join sep (y # ys)"

section \<open>Regular expressions\<close>

text \<open>
  The expressions of the program are kept as syntax trees and run by one backtracking
  matcher.  \<open>Chr\<close> is a literal, \<open>ChrI\<close> a literal under the \<open>i\<close> flag, \<open>Cls\<close> a class
  or escape, \<open>Star\<close> the greedy and \<open>StarL\<close> the lazy star, \<open>Grp n\<close> the \<open>n\<close>-th capturing
  group, \<open>Bol\<close>, \<open>Eol\<close> and \<open>Wb\<close> the assertions \<open>^\<close>, \<open>$\<close> (no \<open>m\<close> flag) and \<open>\b\<close>.
\<close>

datatype re =
    Chr char
  | ChrI char
  | Cls "char \<Rightarrow> bool"
  | Eps
  | Seq re re
  | Alt re re
  | Star re
  | StarL re
  | Grp nat re
  | Bol
  | Eol
  | Wb

definition Plus :: "re \<Rightarrow> re" where
  "Plus r = Seq r (Star r)"

definition PlusL :: "re \<Rightarrow> re" where
  "PlusL r = Seq r (StarL r)"

definition Opt :: "re \<Rightarrow> re" where
  "Opt r = Alt r Eps"

text \<open>A literal string, as \<open>new RegExp(escapeRegex(s))\<close> builds it, without and with \<open>i\<close>.\<close>

definition Str :: "string \<Rightarrow> re" where
  "Str s = foldr (\<lambda>c r. Seq (Chr c) r) s Eps"

definition StrI :: "string \<Rightarrow> re" where
  "StrI s = foldr (\<lambda>c r. Seq (ChrI c) r) s Eps"

text \<open>
  A matcher state is the code unit before the current position (\<open>None\<close> at the start of
  the input) and the input still ahead.  Captures are an association list, the latest
  binding first.
\<close>

type_synonym caps = "(nat \<times> string) list"
type_synonym mstate = "char option \<times> string"

definition atWordBoundary :: "mstate \<Rightarrow> bool" where
  "atWordBoundary st =
     ((case fst st of None \<Rightarrow> False | Some c \<Rightarrow> isWordChar c)
      \<noteq> (case snd st of [] \<Rightarrow> False | c # _ \<Rightarrow> isWordChar c))"

text \<open>
  \<open>ms r st cs\<close> lists every way \<open>r\<close> can match at \<open>st\<close>, in the order in which a
  backtracking matcher tries them; the head is the match the engine reports.  Under the
  \<open>i\<close> flag two code units match when their canonical (upper-case) forms agree; for the
  ASCII pattern letters of this program that is \<open>upperChar\<close>.  An iteration of a star that
  consumes nothing is rejected, as in ECMAScript.
\<close>

function ms :: "re \<Rightarrow> mstate \<Rightarrow> caps \<Rightarrow> (mstate \<times> caps) list" where
  "ms (Chr c) st cs =
     (case snd st of [] \<Rightarrow> [] | x # t \<Rightarrow> if x = c then [((Some x, t), cs)] else [])"
| "ms (ChrI c) st cs =
     (case snd st of [] \<Rightarrow> []
      | x # t \<Rightarrow> if upperChar x = upperChar c then [((Some x, t), cs)] else [])"
| "ms (Cls P) st cs =
     (case snd st of [] \<Rightarrow> [] | x # t \<Rightarrow> if P x then [((Some x, t), cs)] else [])"
| "ms Eps st cs = [(st, cs)]"
| "ms (Seq a b) st cs = concat (map (\<lambda>(st', cs'). ms b st' cs') (ms a st cs))"
| "ms (Alt a b) st cs = ms a st cs @ ms b st cs"
| "ms (Star a) st cs =
     concat (map (\<lambda>(st', cs').
                    if length (snd st') < length (snd st) then ms (Star a) st' cs' else [])
                 (ms a st cs))
     @ [(st, cs)]"
| "ms (StarL a) st cs =
     (st, cs) #
     concat (map (\<lambda>(st', cs').
                    if length (snd st') < length (snd st) then ms (StarL a) st' cs' else [])
                 (ms a st cs))"
| "ms (Grp n a) st cs =
     map (\<lambda>(st', cs'). (st', (n, take (length (snd st) - length (snd st')) (snd st)) # cs'))
         (ms a st cs)"
| "ms Bol st cs = (if fst st = None then [(st, cs)] else [])"
| "ms Eol st cs = (if snd st = [] then [(st, cs)] else [])"
| "ms Wb st cs = (if atWordBoundary st then [(st, cs)] else [])"
  by pat_completeness auto
termination
  by (relation "inv_image (less_than <*lex*> less_than) (\<lambda>(r, st, cs). (size r, length (snd st)))")
     auto

text \<open>The value of capture \<open>n\<close>; a group that took no part reads as the empty string.\<close>

definition grp :: "caps \<Rightarrow> nat \<Rightarrow> string" where
  "grp cs n = (case map_of cs n of None \<Rightarrow> [] | Some v \<Rightarrow> v)"

definition exec_at :: "re \<Rightarrow> mstate \<Rightarrow> (mstate \<times> caps) option" where
  "exec_at r st = (case ms r st [] of [] \<Rightarrow> None | x # _ \<Rightarrow> Some x)"

text \<open>
  \<open>search r p t\<close> is \<open>RegExp.prototype.exec\<close> from the position whose previous code unit
  is \<open>p\<close> and whose remaining input is \<open>t\<close>: the leftmost position with a match.  It
  returns the text skipped, the text matched, the captures and the state after the match.
\<close>

fun search :: "re \<Rightarrow> char option \<Rightarrow> string \<Rightarrow> (string \<times> string \<times> caps \<times> mstate) option" where
  "search r p [] =
     (case exec_at r (p, []) of
        None \<Rightarrow> None
      | Some (st', cs) \<Rightarrow> Some ([], [], cs, st'))"
| "search r p (c # t) =
     (case exec_at r (p, c # t) of
        Some (st', cs) \<Rightarrow> Some ([], take (length (c # t) - length (snd st')) (c # t), cs, st')
      | None \<Rightarrow>
          (case search r (Some c) t of
             None \<Rightarrow> None
           | Some (pre, m, cs, st') \<Rightarrow> Some (c # pre, m, cs, st')))"

text \<open>
  \<open>scan\<close> is the loop shared by the global operations (\<open>replace\<close> and \<open>match\<close> with the
  \<open>g\<close> flag, \<open>matchAll\<close>, \<open>split\<close>): the successive matches from left to right, each
  with the text between it and the match before, and the text after the last match.
  After an empty match the position advances by one code unit, which is carried into the
  next gap.  The comparisons of lengths always hold (a match ends inside the input); they
  make the recursion visibly terminating.
\<close>

function scan :: "re \<Rightarrow> string \<Rightarrow> char option \<Rightarrow> string \<Rightarrow> (string \<times> string \<times> caps) list \<times> string" where
  "scan r carry p t =
     (case search r p t of
        None \<Rightarrow> ([], carry @ t)
      | Some (pre, m, cs, st') \<Rightarrow>
          (if m \<noteq> [] then
             (if length (snd st') < length t
              then (case scan r [] (fst st') (snd st') of
                      (segs, rest) \<Rightarrow> ((carry @ pre, m, cs) # segs, rest))
              else ([(carry @ pre, m, cs)], snd st'))
           else
             (case snd st' of
                [] \<Rightarrow> ([(carry @ pre, m, cs)], [])
              | c # t'' \<Rightarrow>
                  (if length t'' < length t
                   then (case scan r [c] (Some c) t'' of
                           (segs, rest) \<Rightarrow> ((carry @ pre, m, cs) # segs, rest))
                   else ([(carry @ pre, m, cs)], snd st')))))"
  by pat_completeness auto
termination
  by (relation "measure (\<lambda>(r, carry, p, t). length t)") auto

text \<open>\<open>RegExp.prototype.test\<close> on a fresh expression, and the string methods built on it.\<close>

definition test :: "re \<Rightarrow> string \<Rightarrow> bool" where
  "test r s = (search r None s \<noteq> None)"

definition replace_all :: "re \<Rightarrow> (string \<Rightarrow> caps \<Rightarrow> string) \<Rightarrow> string \<Rightarrow> string" where
  "replace_all r f s =
     (case scan r [] None s of
        (segs, rest) \<Rightarrow> concat (map (\<lambda>(pre, m, cs). pre @ f m cs) segs) @ rest)"

definition replace_first :: "re \<Rightarrow> (string \<Rightarrow> caps \<Rightarrow> string) \<Rightarrow> string \<Rightarrow> string" where
  "replace_first r f s =
     (case search r None s of
        None \<Rightarrow> s
      | Some (pre, m, cs, st') \<Rightarrow> pre @ f m cs @ snd st')"

definition match_all :: "re \<Rightarrow> string \<Rightarrow> string list" where
  "match_all r s = map (\<lambda>(pre, m, cs). m) (fst (scan r [] None s))"

text \<open>
  \<open>String.prototype.split\<close> with an expression that has no capturing group and matches
  no empty string (both expressions the program splits on are of that kind).
\<close>

definition split_re :: "re \<Rightarrow> string \<Rightarrow> string list" where
  "split_re r s =
     (case scan r [] None s of
        (segs, rest) \<Rightarrow> map (\<lambda>(pre, m, cs). pre) segs @ [rest])"

text \<open>A sequence and an alternation of several expressions, tried from left to right.\<close>

definition Seqs :: "re list \<Rightarrow> re" where
  "Seqs rs = foldr Seq rs Eps"

fun Alts :: "re list \<Rightarrow> re" where
  "Alts [] = Cls (\<lambda>c. False)"
| "Alts [r] = r"
| "Alts (r # rs) = Alt r (Alts rs)"

section \<open>Data model (types.ts)\<close>

datatype DocumentType = AuditFinding | ExecutiveSummary | StatusUpdate | EmailSenior | RiskDescription

datatype EnglishVariant = EnUS | EnGB

text \<open>\<open>owner\<close> is optional: \<open>None\<close> is \<open>undefined\<close>.\<close>

record RewriteOptions =
  activeVoice :: bool
  clearOwnership :: bool
  sharperImpact :: bool
  calmTone :: bool
  concise :: bool
  auditSafeMode :: bool
  owner :: "string option"
  documentType :: DocumentType
  englishVariant :: EnglishVariant
  standardiseSpellingOpt :: bool

text \<open>
  The field \<open>standardiseSpelling\<close> of the options is \<open>standardiseSpellingOpt\<close> here, the
  name being taken by the method; \<open>type\<close>, \<open>id\<close> and \<open>text\<close> are \<open>ctype\<close>, \<open>ex_id\<close>
  and \<open>ex_text\<close>.
\<close>

record Change =
  ctype :: string
  description :: string

record RewriteResult =
  rewrittenText :: string
  changeLog :: "Change list"
  suggestions :: "string list"

record StyleExample =
  ex_id :: string
  title :: string
  ex_text :: string
  tags :: "string list"
  isActive :: bool

datatype ProtectedChunk = TextChunk string | Protected string

section \<open>The rewrite engine (rewriteEngine.ts)\<close>

subsection \<open>Fixed tables\<close>

definition vocabularyMap :: "(string \<times> string) list" where
  "vocabularyMap =
     [(''lack of clarity'', ''unclear''),
      (''not consistently'', ''inconsistently''),
      (''at this stage'', ''based on current information''),
      (''in order to'', ''to''),
      (''due to the fact that'', ''because''),
      (''for the purpose of'', ''to''),
      (''with regards to'', ''regarding''),
      (''at the present time'', ''currently'')]"

definition fillerOpeners :: "string list" where
  "fillerOpeners =
     [''We note that'', ''For awareness'', ''It should be noted'', ''It is important to note'',
      ''Please be advised'', ''For your information'']"

definition ukToUs :: "(string \<times> string) list" where
  "ukToUs =
     [(''unauthorised'', ''unauthorized''),
      (''authorised'', ''authorized''),
      (''authorisation'', ''authorization''),
      (''authorisations'', ''authorizations''),
      (''organisation'', ''organization''),
      (''organisations'', ''organizations''),
      (''organise'', ''organize''),
      (''organised'', ''organized''),
      (''organising'', ''organizing''),
      (''prioritise'', ''prioritize''),
      (''prioritised'', ''prioritized''),
      (''prioritising'', ''prioritizing''),
      (''standardise'', ''standardize''),
      (''standardised'', ''standardized''),
      (''standardising'', ''standardizing''),
      (''emphasise'', ''emphasize''),
      (''emphasised'', ''emphasized''),
      (''emphasising'', ''emphasizing''),
      (''analyse'', ''analyze''),
      (''analysed'', ''analyzed''),
      (''analysing'', ''analyzing''),
      (''behaviour'', ''behavior''),
      (''behaviours'', ''behaviors''),
      (''labour'', ''labor''),
      (''defence'', ''defense''),
      (''catalogue'', ''catalog''),
      (''catalogues'', ''catalogs''),
      (''modelling'', ''modeling''),
      (''modelled'', ''modeled''),
      (''programme'', ''program''),
      (''programmes'', ''programs'')]"

definition usToUk :: "(string \<times> string) list" where
  "usToUk = map (\<lambda>(uk, us). (us, uk)) ukToUs"

definition dq :: string where
  "dq = [CHR 0x22]"

subsection \<open>Segmentation and spacing\<close>

text \<open>\<open>text.replace(/\r\n/g, "\n").split(/\n{2,}/)\<close>\<close>

definition splitParagraphs :: "string \<Rightarrow> string list" where
  "splitParagraphs txt =
     split_re (Seqs [Chr (CHR 0x0A), Chr (CHR 0x0A), Star (Chr (CHR 0x0A))])
       (replace_all (Seqs [Chr (CHR 0x0D), Chr (CHR 0x0A)]) (\<lambda>m cs. [CHR 0x0A]) txt)"

text \<open>
  \<open>text.match(/[^.!?]+(?:[.!?]+|$)/g)\<close>, the text itself when nothing matches, each piece
  trimmed and the empty ones dropped.
\<close>

definition sentenceRe :: re where
  "sentenceRe =
     Seqs [Plus (Cls (\<lambda>c. \<not> isTerminator c)), Alt (Plus (Cls isTerminator)) Eol]"

definition splitSentences :: "string \<Rightarrow> string list" where
  "splitSentences txt =
     (let matches = match_all sentenceRe txt
      in filter (\<lambda>s. s \<noteq> []) (map trim (if matches = [] then [txt] else matches)))"

text \<open>
  The four replacements of \<open>normaliseSpacing\<close>: \<open>/[ \t]+/g\<close> by a space,
  \<open>/\s+([,.;:!?])/g\<close> by \<open>$1\<close>, \<open>/([,.;:!?])([A-Za-z])/g\<close> by \<open>$1 $2\<close>, \<open>/\s+/g\<close> by a
  space; then \<open>trim\<close>.
\<close>

definition normaliseSpacing :: "string \<Rightarrow> string" where
  "normaliseSpacing txt =
     trim
       (replace_all (Plus (Cls isSpace)) (\<lambda>m cs. '' '')
         (replace_all (Seqs [Grp 1 (Cls isPunct), Grp 2 (Cls isLetterAZ)])
                      (\<lambda>m cs. grp cs 1 @ '' '' @ grp cs 2)
           (replace_all (Seqs [Plus (Cls isSpace), Grp 1 (Cls isPunct)]) (\<lambda>m cs. grp cs 1)
             (replace_all (Plus (Cls (\<lambda>c. c = CHR '' '' \<or> c = CHR 0x09))) (\<lambda>m cs. '' '') txt))))"

subsection \<open>Filler openers and vocabulary\<close>

text \<open>
  The result is \<open>(changed, value, removed)\<close>.  Each opener is tried in list order with
  \<open>^opener\s+\<close> under the \<open>i\<close> flag; the first that matches is cut.
\<close>

fun stripFillerOpener_loop :: "string list \<Rightarrow> string \<Rightarrow> bool \<times> string \<times> string option" where
  "stripFillerOpener_loop [] sentence = (False, sentence, None)"
| "stripFillerOpener_loop (filler # rest) sentence =
     (let regex = Seqs [Bol, StrI filler, Plus (Cls isSpace)]
      in if test regex sentence
         then (True, replace_first regex (\<lambda>m cs. []) sentence, Some filler)
         else stripFillerOpener_loop rest sentence)"

definition stripFillerOpener :: "string \<Rightarrow> bool \<times> string \<times> string option" where
  "stripFillerOpener sentence = stripFillerOpener_loop fillerOpeners sentence"

text \<open>The result is \<open>(changed, value, changes)\<close>; the loop state is \<open>(out, changes)\<close>.\<close>

fun replaceVocabulary_loop :: "(string \<times> string) list \<Rightarrow> string \<times> string list \<Rightarrow> string \<times> string list" where
  "replaceVocabulary_loop [] st = st"
| "replaceVocabulary_loop ((from, to) # rest) (out, changes) =
     (let regex = StrI from
      in if test regex out
         then replaceVocabulary_loop rest
                (replace_all regex (\<lambda>m cs. to) out,
                 changes @ [''Replaced '' @ dq @ from @ dq @ '' with '' @ dq @ to @ dq])
         else replaceVocabulary_loop rest (out, changes))"

definition replaceVocabulary :: "string \<Rightarrow> bool \<times> string \<times> string list" where
  "replaceVocabulary sentence =
     (case replaceVocabulary_loop vocabularyMap (sentence, []) of
        (out, changes) \<Rightarrow> (out \<noteq> sentence, out, changes))"

subsection \<open>Protected tokens\<close>

text \<open>
  The pattern of \<open>protectTokens\<close>, its six groups in order: \<open>\bhttps?:\/\/\S+\b\<close>,
  \<open>\bwww\.\S+\b\<close>, \<open>\b[\w.+-]+@[\w-]+\.[\w.-]+\b\<close>, a backtick span,
  \<open>\b[A-Za-z]:\\[^\s]+\b\<close> and \<open>\b\/[^\s]+\b\<close>.
\<close>

definition notSpace :: "char \<Rightarrow> bool" where
  "notSpace c = (\<not> isSpace c)"

definition protectPattern :: re where
  "protectPattern =
     Alts
      [Grp 1 (Seqs [Wb, Str ''http'', Opt (Chr (CHR ''s'')), Str ''://'', Plus (Cls notSpace), Wb]),
       Grp 2 (Seqs [Wb, Str ''www.'', Plus (Cls notSpace), Wb]),
       Grp 3 (Seqs [Wb, Plus (Cls (\<lambda>c. isWordChar c \<or> c \<in> set ''.+-'')), Chr (CHR ''@''),
                    Plus (Cls (\<lambda>c. isWordChar c \<or> c = CHR ''-'')), Chr (CHR ''.''),
                    Plus (Cls (\<lambda>c. isWordChar c \<or> c \<in> set ''.-'')), Wb]),
       Grp 4 (Seqs [Chr (CHR 0x60), Star (Cls (\<lambda>c. c \<noteq> CHR 0x60)), Chr (CHR 0x60)]),
       Grp 5 (Seqs [Wb, Cls isLetterAZ, Chr (CHR '':''), Chr (CHR 0x5C), Plus (Cls notSpace), Wb]),
       Grp 6 (Seqs [Wb, Chr (CHR ''/''), Plus (Cls notSpace), Wb])]"

text \<open>
  The chunks cover the input in order: the text before each match when it is not empty,
  the match as a protected chunk, and the text after the last match when it is not empty.
\<close>

definition protectTokens :: "string \<Rightarrow> ProtectedChunk list" where
  "protectTokens input =
     (case scan protectPattern [] None input of
        (segs, rest) \<Rightarrow>
          concat (map (\<lambda>(pre, m, cs). (if pre \<noteq> [] then [TextChunk pre] else []) @ [Protected m]) segs)
          @ (if rest \<noteq> [] then [TextChunk rest] else []))"

subsection \<open>Deduplication\<close>

text \<open>The loop of \<open>dedupe\<close>, with its set \<open>seen\<close> and its output array \<open>out\<close>.\<close>

fun dedupe_loop :: "string list \<Rightarrow> string set \<Rightarrow> string list \<Rightarrow> string list" where
  "dedupe_loop [] seen out = out"
| "dedupe_loop (s # items) seen out =
     (let k = trim s
      in if k = [] \<or> k \<in> seen then dedupe_loop items seen out
         else dedupe_loop items (insert k seen) (out @ [k]))"

definition dedupe :: "string list \<Rightarrow> string list" where
  "dedupe items = dedupe_loop items {} []"

subsection \<open>Spelling\<close>

text \<open>
  \<open>matchCase\<close>.  The second test is reached only with \<open>from\<close> not empty (the empty
  string passes the first).  \<open>to\<close> is always a word of the dictionary, so \<open>to[0]\<close> is
  defined.
\<close>

definition matchCase :: "string \<Rightarrow> string \<Rightarrow> string" where
  "matchCase from to =
     (if toUpperCase from = from then toUpperCase to
      else if (case from of [] \<Rightarrow> True | c # _ \<Rightarrow> upperChar c = c)
           then (case to of [] \<Rightarrow> [] | t0 # ts \<Rightarrow> upperChar t0 # ts)
      else to)"

text \<open>
  The description of a spelling change.  The source writes the arrow U+2192 between the
  two words; it lies outside the code units of the embedding and is written \<open>->\<close>.
\<close>

definition spellingDescription :: "string \<Rightarrow> string \<Rightarrow> string" where
  "spellingDescription from to =
     ''Standardised spelling: '' @ dq @ from @ dq @ '' -> '' @ dq @ to @ dq"

text \<open>
  The inner loop over the entries of the dictionary on one text chunk; the state is
  \<open>(out, changed, changes)\<close>, of which \<open>changed\<close> and \<open>changes\<close> live across chunks.
\<close>

fun standardiseSpelling_entries ::
  "(string \<times> string) list \<Rightarrow> string \<times> bool \<times> string list \<Rightarrow> string \<times> bool \<times> string list" where
  "standardiseSpelling_entries [] st = st"
| "standardiseSpelling_entries ((from, to) # rest) (out, changed, changes) =
     (let regex = Seqs [Wb, StrI from, Wb]
      in if test regex out
         then standardiseSpelling_entries rest
                (replace_all regex (\<lambda>m cs. matchCase m to) out, True,
                 changes @ [spellingDescription from to])
         else standardiseSpelling_entries rest (out, changed, changes))"

fun standardiseSpelling_chunks ::
  "(string \<times> string) list \<Rightarrow> ProtectedChunk list \<Rightarrow> bool \<times> string list
     \<Rightarrow> string list \<times> bool \<times> string list" where
  "standardiseSpelling_chunks dict [] (changed, changes) = ([], changed, changes)"
| "standardiseSpelling_chunks dict (Protected v # chunks) (changed, changes) =
     (case standardiseSpelling_chunks dict chunks (changed, changes) of
        (outs, changed', changes') \<Rightarrow> (v # outs, changed', changes'))"
| "standardiseSpelling_chunks dict (TextChunk v # chunks) (changed, changes) =
     (case standardiseSpelling_entries dict (v, changed, changes) of
        (out, changed1, changes1) \<Rightarrow>
          (case standardiseSpelling_chunks dict chunks (changed1, changes1) of
             (outs, changed', changes') \<Rightarrow> (out # outs, changed', changes')))"

text \<open>The result is \<open>(changed, value, changes)\<close>.\<close>

definition standardiseSpelling :: "string \<Rightarrow> EnglishVariant \<Rightarrow> bool \<times> string \<times> string list" where
  "standardiseSpelling sentence variant =
     (let dict = (if variant = EnUS then ukToUs else usToUk);
          chunks = protectTokens sentence
      in case standardiseSpelling_chunks dict chunks (False, []) of
           (outs, changed, changes) \<Rightarrow> (changed, concat outs, dedupe changes))"

text \<open>\<open>words.some((w) => new RegExp(`\\b${w}\\b`).test(lower))\<close>\<close>

fun someWord :: "string list \<Rightarrow> string \<Rightarrow> bool" where
  "someWord [] lower = False"
| "someWord (w # ws) lower = (test (Seqs [Wb, Str w, Wb]) lower \<or> someWord ws lower)"

definition detectMixedVariant :: "string \<Rightarrow> string option" where
  "detectMixedVariant txt =
     (let lower = toLowerCase txt;
          hasUk = someWord (map fst ukToUs) lower;
          hasUs = someWord (map snd ukToUs) lower
      in if hasUk \<and> hasUs
         then Some ''Mixed UK/US spelling detected. Select one English variant for consistency.''
         else None)"

subsection \<open>Qualifier hints\<close>

definition qualifiers :: "string list" where
  "qualifiers =
     [''may'', ''could'', ''might'', ''potentially'', ''appears to'', ''seems to'', ''generally'',
      ''possibly'']"

definition findQualifierHints :: "string \<Rightarrow> string list" where
  "findQualifierHints sentence =
     (let lower = toLowerCase sentence;
          found = filter (\<lambda>q. includes_str lower q) qualifiers
      in if length found = 0 then []
         else [''Qualification detected ('' @ join '', '' found @
               ''). Audit-safe default is to keep it unless evidence supports a stronger statement.''])"

subsection \<open>Passive to active\<close>

definition pastParticiples :: "string list" where
  "pastParticiples =
     [''completed'', ''implemented'', ''performed'', ''reviewed'', ''approved'', ''identified'',
      ''documented'']"

text \<open>\<open>map[pastParticiple] || pastParticiple.replace(/ed$/, "")\<close>\<close>

definition toBaseVerb :: "string \<Rightarrow> string" where
  "toBaseVerb pastParticiple =
     (case map_of
        [(''completed'', ''complete''), (''implemented'', ''implement''),
         (''performed'', ''perform''), (''reviewed'', ''review''), (''approved'', ''approve''),
         (''identified'', ''identify''), (''documented'', ''document'')] pastParticiple of
        Some b \<Rightarrow> b
      | None \<Rightarrow> replace_first (Seqs [Str ''ed'', Eol]) (\<lambda>m cs. []) pastParticiple)"

text \<open>
  The two strict expressions, both under the \<open>i\<close> flag:
  \<open>^(.+?)\s+(was|were)\s+not\s+(completed|...|documented)\b(.*)$\<close> and
  \<open>^(.+?)\s+(was|were)\s+(completed|...|documented)\b(.*)$\<close>.
\<close>

definition strictNegRe :: re where
  "strictNegRe =
     Seqs [Bol, Grp 1 (PlusL (Cls isDot)), Plus (Cls isSpace),
           Grp 2 (Alt (StrI ''was'') (StrI ''were'')), Plus (Cls isSpace), StrI ''not'',
           Plus (Cls isSpace), Grp 3 (Alts (map StrI pastParticiples)), Wb,
           Grp 4 (Star (Cls isDot)), Eol]"

definition strictPosRe :: re where
  "strictPosRe =
     Seqs [Bol, Grp 1 (PlusL (Cls isDot)), Plus (Cls isSpace),
           Grp 2 (Alt (StrI ''was'') (StrI ''were'')),
           Plus (Cls isSpace), Grp 3 (Alts (map StrI pastParticiples)), Wb,
           Grp 4 (Star (Cls isDot)), Eol]"

text \<open>\<open>(m[4] ?? "").trim().replace(/^\s*by\s+.+$/i, "").trim()\<close>\<close>

definition byTailRe :: re where
  "byTailRe = Seqs [Bol, Star (Cls isSpace), StrI ''by'', Plus (Cls isSpace), Plus (Cls isDot), Eol]"

definition stripTail :: "string \<Rightarrow> string" where
  "stripTail m4 = trim (replace_first byTailRe (\<lambda>m cs. []) (trim m4))"

definition buildNeg :: "string \<Rightarrow> caps \<Rightarrow> string" where
  "buildNeg ownr m =
     (let subject = trim (grp m 1);
          pp = toLowerCase (grp m 3);
          base = toBaseVerb pp;
          tail = stripTail (grp m 4)
      in ownr @ '' did not '' @ base @ '' '' @ subject @ (if tail \<noteq> [] then '' '' @ tail else []))"

definition buildPos :: "string \<Rightarrow> caps \<Rightarrow> string" where
  "buildPos ownr m =
     (let subject = trim (grp m 1);
          pp = toLowerCase (grp m 3);
          tail = stripTail (grp m 4)
      in ownr @ '' '' @ pp @ '' '' @ subject @ (if tail \<noteq> [] then '' '' @ tail else []))"

definition strict :: "string \<Rightarrow> (re \<times> (caps \<Rightarrow> string)) list" where
  "strict ownr = [(strictNegRe, buildNeg ownr), (strictPosRe, buildPos ownr)]"

text \<open>\<open>sentence.match(re)\<close> without the \<open>g\<close> flag: the captures of the first match.\<close>

definition match_re :: "re \<Rightarrow> string \<Rightarrow> caps option" where
  "match_re r s = (case search r None s of None \<Rightarrow> None | Some (pre, m, cs, st') \<Rightarrow> Some cs)"

fun strict_loop :: "(re \<times> (caps \<Rightarrow> string)) list \<Rightarrow> string \<Rightarrow> string option" where
  "strict_loop [] sentence = None"
| "strict_loop ((r, build) # ps) sentence =
     (case match_re r sentence of
        Some m \<Rightarrow> Some (build m)
      | None \<Rightarrow> strict_loop ps sentence)"

definition withheldSuggestion :: string where
  "withheldSuggestion =
     ''Active voice not applied (audit-safe): only strict, meaning-preserving patterns are converted.''"

text \<open>
  The result is \<open>(converted, sentence, suggestion)\<close>.  \<open>!owner\<close> holds for \<open>undefined\<close>
  and for the empty string.
\<close>

definition convertPassiveToActiveSafe ::
  "string \<Rightarrow> string option \<Rightarrow> bool \<Rightarrow> bool \<Rightarrow> bool \<times> string \<times> string option" where
  "convertPassiveToActiveSafe sentence ownr clearOwn auditSafe =
     (case ownr of
        None \<Rightarrow> (False, sentence, None)
      | Some ow \<Rightarrow>
          if ow = [] \<or> \<not> clearOwn then (False, sentence, None)
          else (case strict_loop (strict ow) sentence of
                  Some built \<Rightarrow> (True, built, None)
                | None \<Rightarrow>
                    if auditSafe then (False, sentence, Some withheldSuggestion)
                    else (False, sentence, None)))"

subsection \<open>Impact suggestion\<close>

definition impactSuggestionOnly :: "string \<Rightarrow> DocumentType \<Rightarrow> string option" where
  "impactSuggestionOnly sentence docType =
     (if docType \<noteq> AuditFinding then None
      else (let lower = toLowerCase sentence;
                hasImpactCue = (includes_str lower ''risk'' \<or> includes_str lower ''impact''
                                \<or> includes_str lower ''result'' \<or> includes_str lower ''consequence'')
            in if hasImpactCue then None
               else Some (''Consider adding impact: state the credible consequence '' @
                          ''(who/what is affected and why it matters) without overstating certainty.'')))"

subsection \<open>Style heuristic\<close>

text \<open>
  \<open>s.split(/\s+/).length\<close>, and the mean sentence length of one example,
  \<open>sents.reduce(...) / Math.max(1, sents.length)\<close>.  JavaScript computes the means in
  double precision; the embedding computes them exactly, in the rationals.
\<close>

definition wordCount :: "string \<Rightarrow> nat" where
  "wordCount s = length (split_re (Plus (Cls isSpace)) s)"

definition exampleAvg :: "StyleExample \<Rightarrow> rat" where
  "exampleAvg ex =
     (let sents = splitSentences (ex_text ex)
      in of_nat (sum_list (map wordCount sents)) / of_nat (max 1 (length sents)))"

definition avgLength :: "StyleExample list \<Rightarrow> rat" where
  "avgLength activeExamples =
     sum_list (map exampleAvg activeExamples) / of_nat (length activeExamples)"

definition applyStyleHeuristics :: "string \<Rightarrow> StyleExample list \<Rightarrow> string" where
  "applyStyleHeuristics sentence examples =
     (let activeExamples = take 3 (filter isActive examples)
      in if length activeExamples = 0 then sentence
         else (let words = wordCount sentence
               in if avgLength activeExamples > 0
                     \<and> of_nat words > avgLength activeExamples * (3 / 2) \<and> words > 22
                  then replace_first (StrI '', which '') (\<lambda>m cs. ''. This '')
                         (replace_first (StrI '', and '') (\<lambda>m cs. ''. '') sentence)
                  else sentence))"

subsection \<open>Casing and terminal punctuation\<close>

definition fixSentenceCasing :: "string \<Rightarrow> string" where
  "fixSentenceCasing sentence =
     (let trimmed = trim sentence
      in if trimmed = [] then trimmed
         else (case search (Cls isLetterAZ) None trimmed of
                 None \<Rightarrow> trimmed
               | Some (pre, m, cs, st') \<Rightarrow>
                   (let idx = length pre;
                        before = take idx trimmed;
                        first = take 1 (drop idx trimmed);
                        after = drop (idx + 1) trimmed;
                        out = before @ toUpperCase first @ after
                    in replace_all (Seqs [Wb, Chr (CHR ''i''), Wb]) (\<lambda>m cs. ''I'') out)))"

definition ensureTerminalPunctuation :: "string \<Rightarrow> string" where
  "ensureTerminalPunctuation sentence =
     (let trimmed = trim sentence
      in if trimmed = [] then trimmed
         else if test (Seqs [Cls isTerminator, Eol]) trimmed then trimmed
         else trimmed @ ''.'')"

subsection \<open>The pipeline\<close>

text \<open>
  The body of the loop of \<open>rewriteBlock\<close> on one sentence, one function for each of
  its steps.  A step takes and returns the sentence together with the arrays \<open>changeLog\<close>
  and \<open>suggestions\<close>, which the source mutates in place.
\<close>

type_synonym sstate = "string \<times> Change list \<times> string list"

fun stepConcise :: "RewriteOptions \<Rightarrow> sstate \<Rightarrow> sstate" where
  "stepConcise options (sentence, chlog, suggs) =
     (if concise options
      then (case stripFillerOpener sentence of
              (changed, v, removed) \<Rightarrow>
                if changed
                then (v,
                      chlog @
                        [\<lparr>ctype = ''concision'',
                          description = ''Removed filler opener: '' @ dq @
                            (case removed of None \<Rightarrow> ''undefined'' | Some f \<Rightarrow> f) @ dq\<rparr>],
                      suggs)
                else (sentence, chlog, suggs))
      else (sentence, chlog, suggs))"

fun stepVocabulary :: "sstate \<Rightarrow> sstate" where
  "stepVocabulary (sentence, chlog, suggs) =
     (case replaceVocabulary sentence of
        (changed, v, changes) \<Rightarrow>
          if changed
          then (v, chlog @ map (\<lambda>c. \<lparr>ctype = ''clarity'', description = c\<rparr>) changes, suggs)
          else (sentence, chlog, suggs))"

fun stepSpelling :: "RewriteOptions \<Rightarrow> sstate \<Rightarrow> sstate" where
  "stepSpelling options (sentence, chlog, suggs) =
     (if standardiseSpellingOpt options
      then (case standardiseSpelling sentence (englishVariant options) of
              (changed, v, changes) \<Rightarrow>
                if changed
                then (v, chlog @ map (\<lambda>c. \<lparr>ctype = ''spelling'', description = c\<rparr>) changes, suggs)
                else (sentence, chlog, suggs))
      else (sentence, chlog, suggs))"

fun stepQualifiers :: "sstate \<Rightarrow> sstate" where
  "stepQualifiers (sentence, chlog, suggs) = (sentence, chlog, suggs @ findQualifierHints sentence)"

fun stepVoice :: "RewriteOptions \<Rightarrow> sstate \<Rightarrow> sstate" where
  "stepVoice options (sentence, chlog, suggs) =
     (if activeVoice options
      then (case convertPassiveToActiveSafe sentence (owner options) (clearOwnership options)
                   (auditSafeMode options) of
              (conv, v, sugg) \<Rightarrow>
                if conv
                then (v,
                      chlog @
                        [\<lparr>ctype = ''voice'',
                          description = ''Converted passive to active voice (safe rule)''\<rparr>],
                      suggs)
                else (case sugg of
                        Some g \<Rightarrow> (sentence, chlog, suggs @ [g])
                      | None \<Rightarrow> (sentence, chlog, suggs)))
      else (sentence, chlog, suggs))"

fun stepImpact :: "RewriteOptions \<Rightarrow> sstate \<Rightarrow> sstate" where
  "stepImpact options (sentence, chlog, suggs) =
     (if sharperImpact options
      then (case impactSuggestionOnly sentence (documentType options) of
              Some i \<Rightarrow> (sentence, chlog, suggs @ [i])
            | None \<Rightarrow> (sentence, chlog, suggs))
      else (sentence, chlog, suggs))"

fun stepStyle :: "StyleExample list \<Rightarrow> sstate \<Rightarrow> sstate" where
  "stepStyle styleExamples (sentence, chlog, suggs) =
     (if length styleExamples > 0
      then (applyStyleHeuristics sentence styleExamples, chlog, suggs)
      else (sentence, chlog, suggs))"

text \<open>The last three assignments: casing, terminal punctuation, spacing.\<close>

definition formatSentence :: "string \<Rightarrow> string" where
  "formatSentence sentence =
     normaliseSpacing (ensureTerminalPunctuation (fixSentenceCasing sentence))"

fun stepFormat :: "sstate \<Rightarrow> sstate" where
  "stepFormat (sentence, chlog, suggs) = (formatSentence sentence, chlog, suggs)"

definition rewriteSentence ::
  "RewriteOptions \<Rightarrow> StyleExample list \<Rightarrow> string \<Rightarrow> Change list \<Rightarrow> string list \<Rightarrow> sstate" where
  "rewriteSentence options styleExamples sentence chlog suggs =
     stepFormat
       (stepStyle styleExamples
         (stepImpact options
           (stepVoice options
             (stepQualifiers
               (stepSpelling options
                 (stepVocabulary
                   (stepConcise options (sentence, chlog, suggs))))))))"

text \<open>The loop over the sentences; \<open>rewritten\<close> collects the results.\<close>

fun rewriteBlock_loop ::
  "RewriteOptions \<Rightarrow> StyleExample list \<Rightarrow> string list \<Rightarrow> string list \<times> Change list \<times> string list
     \<Rightarrow> string list \<times> Change list \<times> string list" where
  "rewriteBlock_loop options styleExamples [] st = st"
| "rewriteBlock_loop options styleExamples (sentence # rest) (rewritten, chlog, suggs) =
     (case rewriteSentence options styleExamples sentence chlog suggs of
        (sentence', chlog', suggs') \<Rightarrow>
          rewriteBlock_loop options styleExamples rest
            (rewritten @ [sentence'], chlog', suggs'))"

text \<open>\<open>rewriteBlock\<close> returns the rewritten block and the two arrays as it leaves them.\<close>

definition rewriteBlock ::
  "string \<Rightarrow> RewriteOptions \<Rightarrow> StyleExample list \<Rightarrow> Change list \<Rightarrow> string list
     \<Rightarrow> string \<times> Change list \<times> string list" where
  "rewriteBlock block options styleExamples chlog suggs =
     (let trimmed = trim block
      in if trimmed = [] then (block, chlog, suggs)
         else (let processed = normaliseSpacing trimmed;
                   sentences = splitSentences processed
               in case rewriteBlock_loop options styleExamples sentences ([], chlog, suggs) of
                    (rewritten, chlog', suggs') \<Rightarrow>
                      (trim (join '' '' rewritten), chlog', suggs')))"

text \<open>\<open>blocks.map(...)\<close>, block after block, on the shared arrays.\<close>

fun rewrite_blocks ::
  "RewriteOptions \<Rightarrow> StyleExample list \<Rightarrow> string list \<Rightarrow> string list \<times> Change list \<times> string list
     \<Rightarrow> string list \<times> Change list \<times> string list" where
  "rewrite_blocks options styleExamples [] st = st"
| "rewrite_blocks options styleExamples (block # rest) (rewrittenBlocks, chlog, suggs) =
     (case rewriteBlock block options styleExamples chlog suggs of
        (b, chlog', suggs') \<Rightarrow>
          rewrite_blocks options styleExamples rest (rewrittenBlocks @ [b], chlog', suggs'))"

text \<open>
  The arrays of \<open>rewrite\<close> after the last block, before the result is assembled:
  the rewritten blocks, the change chlog and the suggestions as pushed.
\<close>

definition rewrite_state ::
  "string \<Rightarrow> RewriteOptions \<Rightarrow> StyleExample list \<Rightarrow> string list \<times> Change list \<times> string list" where
  "rewrite_state txt options styleExamples =
     (let suggs = (case detectMixedVariant txt of Some mixed \<Rightarrow> [mixed] | None \<Rightarrow> []);
          blocks = splitParagraphs txt
      in rewrite_blocks options styleExamples blocks ([], [], suggs))"

definition rewrite :: "string \<Rightarrow> RewriteOptions \<Rightarrow> StyleExample list \<Rightarrow> RewriteResult" where
  "rewrite txt options styleExamples =
     (case rewrite_state txt options styleExamples of
        (rewrittenBlocks, chlog, suggs) \<Rightarrow>
          \<lparr>rewrittenText = trim (join [CHR 0x0A, CHR 0x0A] rewrittenBlocks),
           changeLog = chlog,
           suggestions = take 12 (dedupe suggs)\<rparr>)"

section \<open>Auxiliary definitions\<close>

subsection \<open>First-order forms of the matcher, for evaluation\<close>

text \<open>
  The equations of \<open>ms\<close> and \<open>search\<close> bind the intermediate states under \<open>\<lambda>\<close> and
  \<open>case\<close>.  The functions below carry the same computations without binders; the
  sections on evaluation prove them equal and hand them to the evaluator.
\<close>

fun bindm ::
  "(mstate \<times> caps) list \<Rightarrow> (mstate \<Rightarrow> caps \<Rightarrow> (mstate \<times> caps) list) \<Rightarrow> (mstate \<times> caps) list" where
  "bindm [] f = []"
| "bindm ((st, cs) # xs) f = f st cs @ bindm xs f"

fun shorter :: "re \<Rightarrow> string \<Rightarrow> mstate \<Rightarrow> caps \<Rightarrow> (mstate \<times> caps) list" where
  "shorter r t (p', t') cs = (if length t' < length t then ms r (p', t') cs else [])"

fun capture :: "nat \<Rightarrow> string \<Rightarrow> mstate \<Rightarrow> caps \<Rightarrow> (mstate \<times> caps) list" where
  "capture n t (p', t') cs = [((p', t'), (n, take (length t - length t') t) # cs)]"

fun found :: "string \<Rightarrow> mstate \<times> caps \<Rightarrow> string \<times> string \<times> caps \<times> mstate" where
  "found t ((p', t'), cs) = ([], take (length t - length t') t, cs, (p', t'))"

fun skip ::
  "char \<Rightarrow> (string \<times> string \<times> caps \<times> mstate) option \<Rightarrow> (string \<times> string \<times> caps \<times> mstate) option" where
  "skip c None = None"
| "skip c (Some (pre, m, cs, st')) = Some (c # pre, m, cs, st')"

fun search_step ::
  "(mstate \<times> caps) option \<Rightarrow> re \<Rightarrow> char \<Rightarrow> string \<Rightarrow> (string \<times> string \<times> caps \<times> mstate) option" where
  "search_step (Some x) r c t = Some (found (c # t) x)"
| "search_step None r c t = skip c (search r (Some c) t)"

subsection \<open>The options of the test suite (rewriteEngine.test.ts)\<close>

definition baseOptions :: RewriteOptions where
  "baseOptions =
     \<lparr>activeVoice = True, clearOwnership = True, sharperImpact = True, calmTone = True,
      concise = True, auditSafeMode = True, owner = Some ''Operations'',
      documentType = AuditFinding, englishVariant = EnGB, standardiseSpellingOpt = True\<rparr>"

subsection \<open>The split of a long sentence as the specification words it\<close>


subsection \<open>The round trip over the dictionary\<close>

text \<open>
  \<open>roundTrips d\<close> checks, entry by entry, that standardising the UK form to \<open>en-US\<close>
  gives the US form and that standardising the US form to \<open>en-GB\<close> gives the UK form.
\<close>

definition spelled :: "string \<Rightarrow> EnglishVariant \<Rightarrow> string" where
  "spelled w variant = fst (snd (standardiseSpelling w variant))"

fun roundTrips :: "(string \<times> string) list \<Rightarrow> bool" where
  "roundTrips [] = True"
| "roundTrips ((uk, us) # rest) =
     (spelled uk EnUS = us \<and> spelled us EnGB = uk \<and> roundTrips rest)"

section \<open>Evaluation\<close>

text \<open>The character classes on the bits of a code unit.\<close>

lemma isUpperAZ_code [code]:
  "isUpperAZ (Char b0 b1 b2 b3 b4 b5 b6 b7) =
     (\<not> b7 \<and> b6 \<and> \<not> b5 \<and> (b0 \<or> b1 \<or> b2 \<or> b3 \<or> b4) \<and> \<not> (b4 \<and> b3 \<and> (b2 \<or> (b1 \<and> b0))))"
  by (cases b0; cases b1; cases b2; cases b3; cases b4; cases b5; cases b6; cases b7;
      simp add: isUpperAZ_def)

lemma isLowerAZ_code [code]:
  "isLowerAZ (Char b0 b1 b2 b3 b4 b5 b6 b7) =
     (\<not> b7 \<and> b6 \<and> b5 \<and> (b0 \<or> b1 \<or> b2 \<or> b3 \<or> b4) \<and> \<not> (b4 \<and> b3 \<and> (b2 \<or> (b1 \<and> b0))))"
  by (cases b0; cases b1; cases b2; cases b3; cases b4; cases b5; cases b6; cases b7;
      simp add: isLowerAZ_def)

lemma isDigit_code [code]:
  "isDigit (Char b0 b1 b2 b3 b4 b5 b6 b7) =
     (\<not> b7 \<and> \<not> b6 \<and> b5 \<and> b4 \<and> \<not> (b3 \<and> (b2 \<or> b1)))"
  by (cases b0; cases b1; cases b2; cases b3; cases b4; cases b5; cases b6; cases b7;
      simp add: isDigit_def)

lemma isSpace_code [code]:
  "isSpace (Char b0 b1 b2 b3 b4 b5 b6 b7) =
     (\<not> b6 \<and> \<not> b4 \<and>
      (if b5 then \<not> b0 \<and> \<not> b1 \<and> \<not> b2 \<and> \<not> b3
       else \<not> b7 \<and> b3 \<and> (\<not> b2 \<or> \<not> b1) \<and> (b2 \<or> b1 \<or> b0)))"
  by (cases b0; cases b1; cases b2; cases b3; cases b4; cases b5; cases b6; cases b7;
      simp add: isSpace_def)

text \<open>The matcher and the search without binders.\<close>

lemma bindm_eq: "bindm xs f = concat (map (\<lambda>(st, cs). f st cs) xs)"
  by (induction xs f rule: bindm.induct) auto

lemma shorter_eq:
  "shorter r t st cs = (if length (snd st) < length t then ms r st cs else [])"
  by (cases st) simp

lemma capture_eq: "capture n t st cs = [(st, (n, take (length t - length (snd st)) t) # cs)]"
  by (cases st) simp

lemma ms_Seq_code: "ms (Seq a b) st cs = bindm (ms a st cs) (ms b)"
  by (simp add: bindm_eq)

lemma ms_Star_code:
  "ms (Star a) st cs = bindm (ms a st cs) (shorter (Star a) (snd st)) @ [(st, cs)]"
  by (simp add: bindm_eq shorter_eq case_prod_unfold)

lemma ms_StarL_code:
  "ms (StarL a) st cs = (st, cs) # bindm (ms a st cs) (shorter (StarL a) (snd st))"
  by (simp add: bindm_eq shorter_eq case_prod_unfold)

lemma ms_Grp_code: "ms (Grp n a) st cs = bindm (ms a st cs) (capture n (snd st))"
  by (simp add: bindm_eq capture_eq case_prod_unfold)

lemmas ms_code [code] =
  ms.simps(1-4) ms_Seq_code ms.simps(6) ms_Star_code ms_StarL_code ms_Grp_code ms.simps(10-12)

lemma search_Nil_code: "search r p [] = map_option (found []) (exec_at r (p, []))"
  by (cases "exec_at r (p, [])") (auto simp: case_prod_unfold)

lemma search_Cons_code: "search r p (c # t) = search_step (exec_at r (p, c # t)) r c t"
  by (cases "exec_at r (p, c # t)"; cases "search r (Some c) t") (auto simp: case_prod_unfold)

lemmas search_code [code] = search_Nil_code search_Cons_code

section \<open>The arrays of the pipeline\<close>

subsection \<open>The change log only grows\<close>

lemma stepConcise_log: "prefix cl (fst (snd (stepConcise options (s, cl, sg))))"
  by (simp split: prod.split)

lemma stepVocabulary_log: "prefix cl (fst (snd (stepVocabulary (s, cl, sg))))"
  by (simp split: prod.split)

lemma stepSpelling_log: "prefix cl (fst (snd (stepSpelling options (s, cl, sg))))"
  by (simp split: prod.split)

lemma stepVoice_log: "prefix cl (fst (snd (stepVoice options (s, cl, sg))))"
  by (simp split: prod.split option.split)

lemma rewriteSentence_log_prefix:
  "prefix cl (fst (snd (rewriteSentence options exs s cl sg)))"
proof -
  obtain s1 c1 g1 where 1: "stepConcise options (s, cl, sg) = (s1, c1, g1)"
    by (metis prod_cases3)
  obtain s2 c2 g2 where 2: "stepVocabulary (s1, c1, g1) = (s2, c2, g2)"
    by (metis prod_cases3)
  obtain s3 c3 g3 where 3: "stepSpelling options (s2, c2, g2) = (s3, c3, g3)"
    by (metis prod_cases3)
  obtain s4 c4 g4 where 4: "stepVoice options (stepQualifiers (s3, c3, g3)) = (s4, c4, g4)"
    by (metis prod_cases3)
  have "prefix cl c1" using stepConcise_log [of cl options s sg] 1 by simp
  moreover have "prefix c1 c2" using stepVocabulary_log [of c1 s1 g1] 2 by simp
  moreover have "prefix c2 c3" using stepSpelling_log [of c2 options s2 g2] 3 by simp
  moreover have "prefix c3 c4"
    using stepVoice_log [of c3 options s3 "g3 @ findQualifierHints s3"] 4 by simp
  ultimately have "prefix cl c4" by (meson prefix_order.trans)
  moreover have "rewriteSentence options exs s cl sg =
      stepFormat (stepStyle exs (stepImpact options (s4, c4, g4)))"
    by (simp only: rewriteSentence_def 1 2 3 4)
  moreover have "fst (snd (stepFormat (stepStyle exs (stepImpact options (s4, c4, g4))))) = c4"
    by (simp split: option.split)
  ultimately show ?thesis by simp
qed

lemma rewriteBlock_loop_log_prefix:
  "prefix cl (fst (snd (rewriteBlock_loop options exs ss (rw, cl, sg))))"
proof (induction ss arbitrary: rw cl sg)
  case Nil
  then show ?case by simp
next
  case (Cons s ss)
  obtain s' cl' sg' where r: "rewriteSentence options exs s cl sg = (s', cl', sg')"
    by (metis prod_cases3)
  have "prefix cl cl'" using rewriteSentence_log_prefix [of cl options exs s sg] r by simp
  moreover have "prefix cl' (fst (snd (rewriteBlock_loop options exs ss (rw @ [s'], cl', sg'))))"
    by (rule Cons.IH)
  ultimately show ?case using r by (auto intro: prefix_order.trans)
qed

lemma rewriteBlock_log_prefix:
  "prefix cl (fst (snd (rewriteBlock block options exs cl sg)))"
proof (cases "trim block = []")
  case True
  then show ?thesis by (simp add: rewriteBlock_def)
next
  case False
  obtain rw cl' sg' where r:
    "rewriteBlock_loop options exs (splitSentences (normaliseSpacing (trim block))) ([], cl, sg)
       = (rw, cl', sg')"
    by (metis prod_cases3)
  have "prefix cl cl'"
    using rewriteBlock_loop_log_prefix
            [of cl options exs "splitSentences (normaliseSpacing (trim block))" "[]" sg] r
    by simp
  then show ?thesis using False r by (simp add: rewriteBlock_def Let_def)
qed

lemma rewrite_blocks_log_prefix:
  "prefix cl (fst (snd (rewrite_blocks options exs bs (rb, cl, sg))))"
proof (induction bs arbitrary: rb cl sg)
  case Nil
  then show ?case by simp
next
  case (Cons b bs)
  obtain b' cl' sg' where r: "rewriteBlock b options exs cl sg = (b', cl', sg')"
    by (metis prod_cases3)
  have "prefix cl cl'" using rewriteBlock_log_prefix [of cl b options exs sg] r by simp
  moreover have "prefix cl' (fst (snd (rewrite_blocks options exs bs (rb @ [b'], cl', sg'))))"
    by (rule Cons.IH)
  ultimately show ?case using r by (auto intro: prefix_order.trans)
qed

subsection \<open>Deduplication keeps the first occurrences\<close>

lemma remdups_snoc: "remdups (ys @ [k]) = filter (\<lambda>x. x \<noteq> k) (remdups ys) @ [k]"
  by (induction ys) auto

lemma first_seen_step:
  "remdups (rev (filter (\<lambda>x. P x \<and> x \<noteq> k) xs)) =
     filter (\<lambda>x. x \<noteq> k) (remdups (rev (filter P xs)))"
proof -
  have "filter (\<lambda>x. x \<noteq> k) (remdups (rev (filter P xs))) =
        remdups (filter (\<lambda>x. x \<noteq> k) (rev (filter P xs)))"
    by (simp add: remdups_filter)
  also have "\<dots> = remdups (rev (filter (\<lambda>x. x \<noteq> k) (filter P xs)))"
    by (simp add: rev_filter)
  also have "\<dots> = remdups (rev (filter (\<lambda>x. P x \<and> x \<noteq> k) xs))"
    by simp
  finally show ?thesis by simp
qed

lemma dedupe_loop_first_seen:
  "distinct out \<Longrightarrow> dedupe_loop items (set out) out =
     out @ rev (remdups (rev (filter (\<lambda>k. k \<noteq> [] \<and> k \<notin> set out) (map trim items))))"
proof (induction items arbitrary: out)
  case Nil
  then show ?case by simp
next
  case (Cons s items)
  show ?case
  proof (cases "trim s = [] \<or> trim s \<in> set out")
    case True
    then show ?thesis using Cons by (auto simp: Let_def)
  next
    case False
    then have d: "distinct (out @ [trim s])" using Cons.prems by simp
    have "dedupe_loop (s # items) (set out) out =
          dedupe_loop items (set (out @ [trim s])) (out @ [trim s])"
      using False by (simp add: Let_def)
    also have "\<dots> = (out @ [trim s]) @
        rev (remdups (rev (filter (\<lambda>k. k \<noteq> [] \<and> k \<notin> set (out @ [trim s])) (map trim items))))"
      by (rule Cons.IH [OF d])
    also have "\<dots> = out @ trim s #
        rev (remdups (rev (filter (\<lambda>k. (k \<noteq> [] \<and> k \<notin> set out) \<and> k \<noteq> trim s) (map trim items))))"
      by (simp add: conj_commute conj_left_commute)
    also have "\<dots> = out @
        rev (remdups (rev (filter (\<lambda>k. k \<noteq> [] \<and> k \<notin> set out) (map trim (s # items)))))"
      using False
        first_seen_step [of "\<lambda>k. k \<noteq> [] \<and> k \<notin> set out" "trim s" "map trim items"]
      by (simp add: remdups_snoc)
    finally show ?thesis .
  qed
qed

lemma dedupe_first_seen:
  "dedupe items = rev (remdups (rev (filter (\<lambda>k. k \<noteq> []) (map trim items))))"
  using dedupe_loop_first_seen [of "[]" items] by (simp add: dedupe_def)

lemma distinct_dedupe: "distinct (dedupe items)"
  by (simp add: dedupe_first_seen)

text \<open>
  Claim C6.  The suggestions of a result are the first twelve entries of the deduplicated
  list of all suggestions pushed during the call.  Deduplication compares the trimmed
  strings, drops the empty ones and keeps each string at its first occurrence
  (\<open>rev \<circ> remdups \<circ> rev\<close> keeps first occurrences), so the result is free of duplicates;
  its length is the smaller of 12 and the number of distinct suggestions, hence exactly
  12 when more than 12 distinct ones were produced.  The change log of the result is
  the array as the steps left it, neither deduplicated nor cut, and every step of the
  pipeline only appends to it.
\<close>

theorem suggestions_deduplicated_capped_log_kept:
  "suggestions (rewrite txt options exs) =
     take 12 (dedupe (snd (snd (rewrite_state txt options exs))))
   \<and> dedupe suggs = rev (remdups (rev (filter (\<lambda>k. k \<noteq> []) (map trim suggs))))
   \<and> distinct (suggestions (rewrite txt options exs))
   \<and> length (suggestions (rewrite txt options exs)) =
       min 12 (length (dedupe (snd (snd (rewrite_state txt options exs)))))
   \<and> changeLog (rewrite txt options exs) = fst (snd (rewrite_state txt options exs))
   \<and> prefix cl (fst (snd (rewriteSentence options exs s cl sg)))
   \<and> prefix cl (fst (snd (rewrite_blocks options exs bs (rb, cl, sg))))"
proof -
  obtain rb' cl' sg' where r: "rewrite_state txt options exs = (rb', cl', sg')"
    by (metis prod_cases3)
  have "distinct (take 12 (dedupe sg'))"
    by (rule distinct_take [OF distinct_dedupe])
  then show ?thesis
    using r dedupe_first_seen [of suggs] rewriteSentence_log_prefix [of cl options exs s sg]
      rewrite_blocks_log_prefix [of cl options exs bs rb sg]
    by (simp add: rewrite_def min_def)
qed

section \<open>The options the engine reads\<close>

lemma rewriteSentence_calmTone:
  "rewriteSentence (options\<lparr>calmTone := b\<rparr>) exs s cl sg = rewriteSentence options exs s cl sg"
proof -
  have 1: "stepConcise (options\<lparr>calmTone := b\<rparr>) st = stepConcise options st" for st
    by (cases st) simp
  have 2: "stepSpelling (options\<lparr>calmTone := b\<rparr>) st = stepSpelling options st" for st
    by (cases st) simp
  have 3: "stepVoice (options\<lparr>calmTone := b\<rparr>) st = stepVoice options st" for st
    by (cases st) simp
  have 4: "stepImpact (options\<lparr>calmTone := b\<rparr>) st = stepImpact options st" for st
    by (cases st) simp
  show ?thesis by (simp only: rewriteSentence_def 1 2 3 4)
qed

lemma rewriteBlock_loop_calmTone:
  "rewriteBlock_loop (options\<lparr>calmTone := b\<rparr>) exs ss st = rewriteBlock_loop options exs ss st"
  by (induction options exs ss st rule: rewriteBlock_loop.induct)
     (simp_all add: rewriteSentence_calmTone split: prod.splits)

lemma rewriteBlock_calmTone:
  "rewriteBlock block (options\<lparr>calmTone := b\<rparr>) exs cl sg = rewriteBlock block options exs cl sg"
  by (simp add: rewriteBlock_def rewriteBlock_loop_calmTone Let_def)

lemma rewrite_blocks_calmTone:
  "rewrite_blocks (options\<lparr>calmTone := b\<rparr>) exs bs st = rewrite_blocks options exs bs st"
  by (induction options exs bs st rule: rewrite_blocks.induct)
     (simp_all add: rewriteBlock_calmTone split: prod.splits)

text \<open>
  Claim C10.  Two option values that differ only in \<open>calmTone\<close> give the same result,
  for every text and every list of style examples: whatever value \<open>b\<close> the field is set
  to, the rewritten text, the change log and the suggestions are those of the original
  options.
\<close>

theorem rewrite_ignores_calmTone:
  "rewrite txt (options\<lparr>calmTone := b\<rparr>) styleExamples = rewrite txt options styleExamples"
  by (simp add: rewrite_def rewrite_state_def rewrite_blocks_calmTone)

section \<open>Passive to active: when nothing is converted\<close>

text \<open>
  Claim C5.  In the passive-to-active stage, when the owner is unset (\<open>undefined\<close> or
  the empty string) or \<open>clearOwnership\<close> is off, the sentence comes back unchanged and
  without a suggestion; when the owner is set, \<open>clearOwnership\<close> is on and neither strict
  expression matches, the sentence comes back unchanged with exactly the withheld-conversion
  suggestion if \<open>auditSafeMode\<close> is on and with none if it is off.  The step of the
  pipeline accordingly leaves sentence, change log and suggestions alone in the first
  case, and in the second appends that one suggestion or nothing.
\<close>

theorem passive_stage_skip_and_withheld:
  "(ownr = None \<or> ownr = Some [] \<or> \<not> clearOwn \<longrightarrow>
      convertPassiveToActiveSafe sentence ownr clearOwn auditSafe = (False, sentence, None))
   \<and> (ownr = Some ow \<and> ow \<noteq> [] \<and> clearOwn
        \<and> match_re strictNegRe sentence = None \<and> match_re strictPosRe sentence = None \<longrightarrow>
      convertPassiveToActiveSafe sentence ownr clearOwn auditSafe =
        (False, sentence, if auditSafe then Some withheldSuggestion else None))
   \<and> (activeVoice options
        \<and> (owner options = None \<or> owner options = Some [] \<or> \<not> clearOwnership options) \<longrightarrow>
      stepVoice options (sentence, cl, sg) = (sentence, cl, sg))
   \<and> (activeVoice options \<and> owner options = Some ow \<and> ow \<noteq> [] \<and> clearOwnership options
        \<and> match_re strictNegRe sentence = None \<and> match_re strictPosRe sentence = None \<longrightarrow>
      stepVoice options (sentence, cl, sg) =
        (sentence, cl, if auditSafeMode options then sg @ [withheldSuggestion] else sg))"
  by (auto simp: convertPassiveToActiveSafe_def strict_def split: option.splits)

theorem passive_stage_skip_and_withheld_witness:
  "match_re strictNegRe ''Logs rotate daily.'' = None
   \<and> match_re strictPosRe ''Logs rotate daily.'' = None
   \<and> convertPassiveToActiveSafe ''Logs rotate daily.'' None True True =
        (False, ''Logs rotate daily.'', None)
   \<and> convertPassiveToActiveSafe ''Logs rotate daily.'' (Some ''Operations'') False True =
        (False, ''Logs rotate daily.'', None)
   \<and> convertPassiveToActiveSafe ''Logs rotate daily.'' (Some ''Operations'') True True =
        (False, ''Logs rotate daily.'', Some withheldSuggestion)
   \<and> convertPassiveToActiveSafe ''Logs rotate daily.'' (Some ''Operations'') True False =
        (False, ''Logs rotate daily.'', None)
   \<and> stepVoice baseOptions (''Logs rotate daily.'', [], []) =
        (''Logs rotate daily.'', [], [withheldSuggestion])
   \<and> stepVoice (baseOptions\<lparr>owner := None\<rparr>) (''Logs rotate daily.'', [], []) =
        (''Logs rotate daily.'', [], [])"
proof -
  have n: "match_re strictNegRe ''Logs rotate daily.'' = None" by code_simp
  have p: "match_re strictPosRe ''Logs rotate daily.'' = None" by code_simp
  show ?thesis
    using n p
      passive_stage_skip_and_withheld [where ownr = None and clearOwn = True
        and sentence = "''Logs rotate daily.''" and auditSafe = True
        and options = "baseOptions\<lparr>owner := None\<rparr>" and cl = "[]" and sg = "[]"]
      passive_stage_skip_and_withheld [where ownr = "Some ''Operations''" and clearOwn = False
        and sentence = "''Logs rotate daily.''" and auditSafe = True]
      passive_stage_skip_and_withheld [where ownr = "Some ''Operations''" and ow = "''Operations''"
        and clearOwn = True and sentence = "''Logs rotate daily.''" and auditSafe = True
        and options = baseOptions and cl = "[]" and sg = "[]"]
      passive_stage_skip_and_withheld [where ownr = "Some ''Operations''" and ow = "''Operations''"
        and clearOwn = True and sentence = "''Logs rotate daily.''" and auditSafe = False]
    by (simp add: baseOptions_def)
qed

section \<open>The style heuristic\<close>





section \<open>Qualifier hints\<close>






section \<open>Spelling: the round trip over the dictionary\<close>

lemma roundTrips_append: "roundTrips (xs @ ys) = (roundTrips xs \<and> roundTrips ys)"
  by (induction xs rule: roundTrips.induct) auto

lemma roundTrips_all:
  "roundTrips d \<Longrightarrow> (uk, us) \<in> set d \<Longrightarrow> spelled uk EnUS = us \<and> spelled us EnGB = uk"
  by (induction d rule: roundTrips.induct) auto

lemma roundTrips_1: "roundTrips (take 8 ukToUs)"
  by code_simp

lemma roundTrips_2: "roundTrips (take 8 (drop 8 ukToUs))"
  by code_simp

lemma roundTrips_3: "roundTrips (take 8 (drop 16 ukToUs))"
  by code_simp

lemma roundTrips_4: "roundTrips (drop 24 ukToUs)"
  by code_simp

lemma roundTrips_ukToUs: "roundTrips ukToUs"
proof -
  have "ukToUs = take 8 ukToUs @ take 8 (drop 8 ukToUs) @ take 8 (drop 16 ukToUs) @ drop 24 ukToUs"
    by (simp add: ukToUs_def)
  then show ?thesis
    using roundTrips_1 roundTrips_2 roundTrips_3 roundTrips_4 roundTrips_append by metis
qed

text \<open>
  Claim C7.  For every entry of the dictionary, standardising the UK form with target
  \<open>en-US\<close> yields the US form and standardising the US form with target \<open>en-GB\<close> yields
  the UK form, so going to one variant and back restores the original term; in
  particular \<open>unauthorised\<close> becomes \<open>unauthorized\<close> and comes back as \<open>unauthorised\<close>.
  (\<open>spelled w v\<close> is the \<open>value\<close> field of \<open>standardiseSpelling w v\<close>.)
\<close>

theorem spelling_round_trip:
  "\<forall>(uk, us) \<in> set ukToUs.
     spelled uk EnUS = us \<and> spelled us EnGB = uk
     \<and> spelled (spelled uk EnUS) EnGB = uk \<and> spelled (spelled us EnGB) EnUS = us"
  using roundTrips_all [OF roundTrips_ukToUs] by auto

theorem spelling_round_trip_witness:
  "(''unauthorised'', ''unauthorized'') \<in> set ukToUs
   \<and> spelled ''unauthorised'' EnUS = ''unauthorized''
   \<and> spelled (spelled ''unauthorised'' EnUS) EnGB = ''unauthorised''"
proof -
  have m: "(''unauthorised'', ''unauthorized'') \<in> set ukToUs" by (simp add: ukToUs_def)
  show ?thesis using m spelling_round_trip by fastforce
qed

section \<open>Protected spans\<close>

text \<open>
  Claim C1 does not hold of the source.  In \<open>Email ops@company.com\<close> the address is a
  protected span (\<open>protectTokens\<close> returns it as a protected chunk), yet the rewritten
  text is \<open>Email ops@company. Com.\<close>: \<open>normaliseSpacing\<close>, which runs on the whole block
  before any masking, puts a space after the full stop inside the address, the sentence
  splitter then cuts there, and the casing step capitalises the remainder.  The address
  is no substring of the output.
\<close>

theorem protected_email_altered:
  "protectTokens ''Email ops@company.com'' = [TextChunk ''Email '', Protected ''ops@company.com'']
   \<and> normaliseSpacing ''Email ops@company.com'' = ''Email ops@company. com''
   \<and> rewrittenText (rewrite ''Email ops@company.com'' baseOptions []) = ''Email ops@company. Com.''
   \<and> \<not> includes_str ''Email ops@company. Com.'' ''ops@company.com''"
  by code_simp

section \<open>Casing and terminal punctuation of the output\<close>

lemma style_split_first_run:
  "rewrittenText
     (rewrite ''a b c d e f g h j k, and l m n o p q r s t u v w x'' baseOptions
        [\<lparr>ex_id = ''1'', title = ''t'', ex_text = ''Short one.'', tags = [], isActive = True\<rparr>])
   = ''A b c d e f g h j k. l m n o p q r s t u v w x.''"
  by code_simp

lemma style_split_second_run:
  "rewrittenText
     (rewrite ''A b c d e f g h j k. l m n o p q r s t u v w x.'' baseOptions
        [\<lparr>ex_id = ''1'', title = ''t'', ex_text = ''Short one.'', tags = [], isActive = True\<rparr>])
   = ''A b c d e f g h j k. L m n o p q r s t u v w x.''"
  by code_simp

text \<open>
  Claim C8 does not hold of the source.  With one active style example of short
  sentences, a sentence of 24 words containing \<open>", and "\<close> is split by the style
  heuristic into \<open>... k. l m ...\<close>; the casing step, which runs once on the whole
  string, capitalises only its first letter, so the rewritten text contains a sentence
  that begins with the lower-case letter \<open>l\<close>.  Running the pipeline again on that
  output capitalises the letter: the formatting of the first run was not final.
\<close>

theorem style_split_lowercase_sentence:
  "rewrittenText
     (rewrite ''a b c d e f g h j k, and l m n o p q r s t u v w x'' baseOptions
        [\<lparr>ex_id = ''1'', title = ''t'', ex_text = ''Short one.'', tags = [], isActive = True\<rparr>])
   = ''A b c d e f g h j k. l m n o p q r s t u v w x.''
   \<and> splitSentences ''A b c d e f g h j k. l m n o p q r s t u v w x.''
       = [''A b c d e f g h j k.'', ''l m n o p q r s t u v w x.'']
   \<and> rewrittenText
       (rewrite ''A b c d e f g h j k. l m n o p q r s t u v w x.'' baseOptions
          [\<lparr>ex_id = ''1'', title = ''t'', ex_text = ''Short one.'', tags = [], isActive = True\<rparr>])
     = ''A b c d e f g h j k. L m n o p q r s t u v w x.''"
proof -
  have "splitSentences ''A b c d e f g h j k. l m n o p q r s t u v w x.''
      = [''A b c d e f g h j k.'', ''l m n o p q r s t u v w x.'']"
    by code_simp
  then show ?thesis using style_split_first_run style_split_second_run by simp
qed

end
